theory Spec2Isabelle
  imports
    Complex_Main
    "HOL-Library.Multiset"
    "HOL-Library.Sublist"
    "HOL-Library.Char_ord"
    "HOL-Library.List_Lexorder"
begin

section \<open>The four loaded tables\<close>

text \<open>
  \<^verbatim>\<open>app.py\<close> reads four CSV files with \<^verbatim>\<open>pd.read_csv\<close> and works on the columns
  named below. A table is the list of its rows, in file order; the row index that pandas
  gives a freshly read table is the position in the list (\<^verbatim>\<open>RangeIndex\<close>, from 0).

  Column types follow the pandas dtypes. A text column has dtype \<^verbatim>\<open>object\<close> and holds a
  missing value (NaN) wherever the CSV field is empty or is one of the default NA markers
  of \<^verbatim>\<open>read_csv\<close>: such a cell is \<open>None\<close>. The columns that the code uses as integers
  (\<^verbatim>\<open>first_year\<close>: \<^verbatim>\<open>int(year)\<close>, \<^verbatim>\<open>range(min, 2030)\<close>; the counts \<^verbatim>\<open>stations\<close> and
  \<^verbatim>\<open>count\<close>) and the boolean flag have dtypes \<^verbatim>\<open>int64\<close> and \<^verbatim>\<open>bool\<close>, which cannot hold
  a missing value. A float64 number is a rational (type \<open>rat\<close>); what the rounded float64
  operations of the libraries return is not computed but taken as a parameter.
\<close>

record station =
  name :: "string option"
  country_code :: "string option"
  latitude :: rat
  longitude :: rat
  is_fast_dc :: bool

text \<open>A row of \<^verbatim>\<open>clean_ev_models.csv\<close>; \<open>make_name\<close> is the column \<^verbatim>\<open>make\<close>.\<close>

record model =
  make_name :: "string option"
  first_year :: int

text \<open>A row of \<^verbatim>\<open>clean_country_summary.csv\<close> (columns \<^verbatim>\<open>country_code\<close>, \<^verbatim>\<open>stations\<close>).\<close>

record country =
  cs_country_code :: "string option"
  cs_stations :: int

text \<open>A row of \<^verbatim>\<open>clean_world_summary.csv\<close> (column \<^verbatim>\<open>count\<close>).\<close>

record world =
  ws_count :: int

text \<open>
  The exceptions of the modelled paths. The libraries raise \<^verbatim>\<open>ValueError\<close> on the inputs
  they refuse. pandas raises \<^verbatim>\<open>KeyError\<close> when a frame has no column of the name asked
  for, and Python's \<^verbatim>\<open>sorted\<close> raises \<^verbatim>\<open>TypeError\<close> on a list that mixes strings and
  missing values.
\<close>

datatype error = ValueError | KeyError | TypeError

section \<open>Aggregation\<close>

text \<open>
  \<^verbatim>\<open>df.groupby(col).size().reset_index(name=...)\<close> with the pandas defaults
  \<^verbatim>\<open>sort=True\<close> and \<^verbatim>\<open>dropna=True\<close>: one output row per distinct key that is present,
  in ascending key order, with the number of input rows that carry the key. Rows whose
  key is missing belong to no group.
\<close>

definition groupby_size :: "('k::linorder) option list \<Rightarrow> ('k \<times> nat) list" where
  "groupby_size col =
     (let present = [k. Some k \<leftarrow> col]
      in map (\<lambda>k. (k, count_list present k)) (sort (remdups present)))"

text \<open>Line 65: \<^verbatim>\<open>stations.groupby("country_code").size().reset_index(name="station_count")\<close>.\<close>

definition stations_count :: "station list \<Rightarrow> (string \<times> nat) list" where
  "stations_count stations = groupby_size (map country_code stations)"

text \<open>Line 177: \<^verbatim>\<open>models.groupby("first_year").size().reset_index(name="count")\<close>.\<close>

definition growth :: "model list \<Rightarrow> (int \<times> nat) list" where
  "growth models = groupby_size (map (\<lambda>m. Some (first_year m)) models)"

section \<open>Filtering\<close>

text \<open>
  The launch-year select box offers \<^verbatim>\<open>"All"\<close> and the years of the table; the
  manufacturer select box returns a string, compared with \<^verbatim>\<open>"All"\<close>.
\<close>

datatype year_choice = AllYears | Year int

text \<open>
  Lines 117 to 121. A boolean-mask selection \<^verbatim>\<open>df[df[col] == v]\<close> keeps the rows whose
  cell equals \<open>v\<close>, in their order; a missing cell equals nothing.
\<close>

definition filtered :: "model list \<Rightarrow> string \<Rightarrow> year_choice \<Rightarrow> model list" where
  "filtered models brand year =
     (let filtered0 = models;
          filtered1 = (if brand \<noteq> ''All''
                       then filter (\<lambda>m. make_name m = Some brand) filtered0 else filtered0)
      in case year of
           AllYears \<Rightarrow> filtered1
         | Year y \<Rightarrow> filter (\<lambda>m. first_year m = y) filtered1)"

section \<open>Top ten\<close>

text \<open>
  Line 81 sorts the table of counts with
  \<^verbatim>\<open>sort_values(by="station_count", ascending=False)\<close> and keeps \<^verbatim>\<open>head(10)\<close>.
  pandas sorts one column by computing an indexer and taking the rows at it
  (\<^verbatim>\<open>nargsort\<close>): for a descending sort it reverses the column and the row positions,
  calls the column's \<^verbatim>\<open>argsort(kind="quicksort")\<close>, the default kind, and reverses the
  resulting indexer. The argsort is numpy's. Its contract is that it returns a
  permutation of the positions that puts the values in ascending order; the default kind
  is not a stable sort, so the order it leaves equal values in is not fixed. It is a
  parameter of the model, and \<open>is_argsort\<close> is its contract.
\<close>

definition is_argsort :: "(nat list \<Rightarrow> nat list) \<Rightarrow> bool" where
  "is_argsort argsort =
     (\<forall>xs. mset (argsort xs) = mset [0..<length xs]
           \<and> sorted (map (\<lambda>i. xs ! i) (argsort xs)))"

definition sort_values_desc ::
  "(nat list \<Rightarrow> nat list) \<Rightarrow> ('k \<times> nat) list \<Rightarrow> ('k \<times> nat) list" where
  "sort_values_desc argsort df =
     (let items = map snd df;
          idx = [0..<length items];
          non_nans = rev items;
          non_nan_idx = rev idx;
          indexer = rev (map (\<lambda>j. non_nan_idx ! j) (argsort non_nans))
      in map (\<lambda>i. df ! i) indexer)"

definition top10 :: "(nat list \<Rightarrow> nat list) \<Rightarrow> ('k \<times> nat) list \<Rightarrow> ('k \<times> nat) list" where
  "top10 argsort counts = take 10 (sort_values_desc argsort counts)"

text \<open>
  Two argsorts that meet the contract. The first leaves equal values in their order (what
  a stable kind does, and an insertion sort on a short column); the second leaves them
  in the opposite order.
\<close>

definition stable_argsort :: "nat list \<Rightarrow> nat list" where
  "stable_argsort xs = map snd (sort_key fst (zip xs [0..<length xs]))"

definition reversing_argsort :: "nat list \<Rightarrow> nat list" where
  "reversing_argsort xs = map snd (sort_key fst (rev (zip xs [0..<length xs])))"

section \<open>Forecasts\<close>

text \<open>
  \<^verbatim>\<open>LinearRegression().fit(X, y)\<close> of scikit-learn, for one feature and with the default
  \<^verbatim>\<open>fit_intercept=True\<close>. The library refuses an input with no sample, and \<open>X\<close> and \<open>y\<close>
  of different lengths, with \<^verbatim>\<open>ValueError\<close>. Otherwise it converts the columns to float64,
  subtracts the means from \<open>X\<close> and \<open>y\<close>, solves the centred least-squares problem with
  LAPACK's \<^verbatim>\<open>lstsq\<close>, which returns the solution of least norm, and sets the intercept to
  \<open>mean y - mean X * coef\<close>. \<^verbatim>\<open>predict\<close> refuses an input with no sample and otherwise
  returns \<open>x * coef + intercept\<close> for every \<open>x\<close>, in float64. On finite numbers the
  least-squares routine does not fail: a fit of one sample or more returns a model.

  A float64 number is a rational, but the float64 operations round, and the order in
  which the library applies them is its own. What they return is therefore not computed
  here: it is a parameter of the model, \<open>float64_fit\<close> for the fitted model and
  \<open>float64_value\<close> for the value of a fitted model at an \<open>x\<close>. Two cases are exact in
  float64 and are computed. With one sample the centred column is 0, the solution of
  least norm is 0 and the intercept is the observed value: that is the least-squares line
  of one point, \<open>least_squares\<close> below. With the coefficient 0 the product \<open>x * coef\<close> is
  0 and the sum is the intercept. The years and counts of the tables are taken to be
  integers that float64 holds exactly.
\<close>

record linear_regression =
  coef :: rat
  intercept :: rat

text \<open>
  The least-squares line in exact arithmetic, with the steps of the library: the means,
  the centred columns, the solution of least norm (0 when the centred column is all
  zeros) and the intercept.
\<close>

definition mean :: "rat list \<Rightarrow> rat" where
  "mean xs = sum_list xs / of_nat (length xs)"

definition lstsq :: "rat list \<Rightarrow> rat list \<Rightarrow> rat" where
  "lstsq A b =
     (let ata = (\<Sum>x\<leftarrow>A. x * x);
          atb = (\<Sum>(x, v)\<leftarrow>zip A b. x * v)
      in if ata = 0 then 0 else atb / ata)"

definition least_squares :: "rat list \<Rightarrow> rat list \<Rightarrow> linear_regression" where
  "least_squares X y =
     (let X_offset = mean X;
          y_offset = mean y;
          Xc = map (\<lambda>x. x - X_offset) X;
          yc = map (\<lambda>v. v - y_offset) y;
          w = lstsq Xc yc
      in \<lparr>coef = w, intercept = y_offset - X_offset * w\<rparr>)"

definition linear_value :: "linear_regression \<Rightarrow> rat \<Rightarrow> rat" where
  "linear_value m x = x * coef m + intercept m"

definition fit ::
  "(rat list \<Rightarrow> rat list \<Rightarrow> linear_regression) \<Rightarrow> rat list \<Rightarrow> rat list
     \<Rightarrow> error + linear_regression" where
  "fit float64_fit X y =
     (if X = [] then Inl ValueError
      else if length y \<noteq> length X then Inl ValueError
      else if length X = 1 then Inr (least_squares X y)
      else Inr (float64_fit X y))"

definition prediction_at ::
  "(linear_regression \<Rightarrow> rat \<Rightarrow> rat) \<Rightarrow> linear_regression \<Rightarrow> rat \<Rightarrow> rat" where
  "prediction_at float64_value m x =
     (if coef m = 0 then intercept m else float64_value m x)"

definition predict ::
  "(linear_regression \<Rightarrow> rat \<Rightarrow> rat) \<Rightarrow> linear_regression \<Rightarrow> rat list
     \<Rightarrow> error + rat list" where
  "predict float64_value m X =
     (if X = [] then Inl ValueError
      else Inr (map (prediction_at float64_value m) X))"

text \<open>
  Lines 177 to 182: the counts of models per launch year, the fit, and the predictions
  for \<^verbatim>\<open>range(growth["first_year"].min(), 2030)\<close>. The result is the table
  \<^verbatim>\<open>future_years\<close>, as the list of its rows (year, prediction).
\<close>

definition model_forecast ::
  "(rat list \<Rightarrow> rat list \<Rightarrow> linear_regression) \<Rightarrow> (linear_regression \<Rightarrow> rat \<Rightarrow> rat)
     \<Rightarrow> model list \<Rightarrow> error + (int \<times> rat) list" where
  "model_forecast float64_fit float64_value models =
     (let growth_tbl = growth models;
          X = map (\<lambda>(yr, c). of_int yr) growth_tbl;
          y = map (\<lambda>(yr, c). of_nat c) growth_tbl
      in case fit float64_fit X y of
           Inl e \<Rightarrow> Inl e
         | Inr m \<Rightarrow>
             (let future_years = [Min (set (map fst growth_tbl)) .. 2029]
              in case predict float64_value m (map of_int future_years) of
                   Inl e \<Rightarrow> Inl e
                 | Inr prediction \<Rightarrow> Inr (zip future_years prediction)))"

text \<open>
  Lines 197 to 201: the fit of the \<^verbatim>\<open>count\<close> column over the row index, and the
  predictions for \<^verbatim>\<open>range(len(world_summary) + 5)\<close>. The result is the table
  \<^verbatim>\<open>future_idx\<close>, as the list of its rows (index, prediction).
\<close>

definition world_forecast ::
  "(rat list \<Rightarrow> rat list \<Rightarrow> linear_regression) \<Rightarrow> (linear_regression \<Rightarrow> rat \<Rightarrow> rat)
     \<Rightarrow> world list \<Rightarrow> error + (nat \<times> rat) list" where
  "world_forecast float64_fit float64_value world_summary =
     (let X2 = map of_nat [0..<length world_summary];
          y2 = map (\<lambda>w. of_int (ws_count w)) world_summary
      in case fit float64_fit X2 y2 of
           Inl e \<Rightarrow> Inl e
         | Inr model2 \<Rightarrow>
             (let future_idx = [0..<length world_summary + 5]
              in case predict float64_value model2 (map of_nat future_idx) of
                   Inl e \<Rightarrow> Inl e
                 | Inr prediction \<Rightarrow> Inr (zip future_idx prediction)))"

section \<open>Clustering\<close>

text \<open>
  Line 154 builds the estimator \<^verbatim>\<open>KMeans(n_clusters=3, random_state=42)\<close>; line 155 calls
  its \<^verbatim>\<open>fit_predict\<close> on the column \<^verbatim>\<open>stations\<close> of a copy of the country summary and
  stores the labels as the new column \<^verbatim>\<open>cluster\<close>.
\<close>

record kmeans_params =
  n_clusters :: nat
  random_state :: "nat option"

definition kmeans :: kmeans_params where
  "kmeans = \<lparr>n_clusters = 3, random_state = Some 42\<rparr>"

text \<open>
  \<^verbatim>\<open>fit_predict\<close> of scikit-learn refuses an input with fewer samples than clusters with
  \<^verbatim>\<open>ValueError\<close>. Otherwise it seeds its random generator, chooses initial centres with
  it, refines them with Lloyd's iterations in float64 and returns the labels. That
  computation is the library's: \<open>lloyd k seed X\<close> is a parameter of the model, and may
  raise. With \<^verbatim>\<open>random_state\<close> an integer the generator is seeded with it; with
  \<^verbatim>\<open>random_state=None\<close> the library takes the seed from the operating system, anew at
  every run of the script: \<open>entropy run\<close>.

  The contract of the library, \<open>is_kmeans\<close>: the labels it returns are as many as the
  samples, and each is the index of a cluster, below the number of clusters.
\<close>

definition fit_predict ::
  "(nat \<Rightarrow> nat \<Rightarrow> rat list \<Rightarrow> error + nat list) \<Rightarrow> (nat \<Rightarrow> nat) \<Rightarrow> nat
     \<Rightarrow> kmeans_params \<Rightarrow> rat list \<Rightarrow> error + nat list" where
  "fit_predict lloyd entropy run km X =
     (if length X < n_clusters km then Inl ValueError
      else lloyd (n_clusters km)
             (case random_state km of Some seed \<Rightarrow> seed | None \<Rightarrow> entropy run) X)"


text \<open>
  Lines 153 to 155. The assignment of the column is refused by pandas with
  \<^verbatim>\<open>ValueError\<close> when the labels are not as many as the rows. The result is the table
  \<^verbatim>\<open>infra\<close> with its new column, as the list of its rows (row, cluster).
\<close>

definition clustering ::
  "(nat \<Rightarrow> nat \<Rightarrow> rat list \<Rightarrow> error + nat list) \<Rightarrow> (nat \<Rightarrow> nat) \<Rightarrow> nat
     \<Rightarrow> country list \<Rightarrow> error + (country \<times> nat) list" where
  "clustering lloyd entropy run country_summary =
     (let infra = country_summary
      in case fit_predict lloyd entropy run kmeans (map (\<lambda>c. of_int (cs_stations c)) infra) of
           Inl e \<Rightarrow> Inl e
         | Inr labels \<Rightarrow>
             (if length labels = length infra then Inr (zip infra labels)
              else Inl ValueError))"

text \<open>
  One behaviour that meets the contract, for the examples: the label of a sample is the
  sum of the seed and the whole part of the sample, modulo the number of clusters.
\<close>

definition residue_labels :: "nat \<Rightarrow> nat \<Rightarrow> rat list \<Rightarrow> error + nat list" where
  "residue_labels k seed X =
     (if k = 0 then Inl ValueError
      else Inr (map (\<lambda>x. (seed + nat \<lfloor>x\<rfloor>) mod k) X))"

section \<open>Sampling\<close>

text \<open>
  Line 93: \<^verbatim>\<open>stations.sample(n=min(5000, len(stations)), random_state=42)\<close>. Without
  replacement pandas asks numpy for \<^verbatim>\<open>choice(len, size=n, replace=False)\<close>, which raises
  \<^verbatim>\<open>ValueError\<close> when \<open>n\<close> exceeds the length and otherwise returns the first \<open>n\<close>
  positions of a random permutation of the positions; pandas takes the rows at them. The
  permutation is the random generator's: a parameter of the model, a function of the
  length since the seed is fixed, with the contract \<open>is_permutation\<close>.
\<close>

definition is_permutation :: "(nat \<Rightarrow> nat list) \<Rightarrow> bool" where
  "is_permutation permutation = (\<forall>n. mset (permutation n) = mset [0..<n])"

definition sample :: "(nat \<Rightarrow> nat list) \<Rightarrow> nat \<Rightarrow> 'a list \<Rightarrow> error + 'a list" where
  "sample permutation n df =
     (if length df < n then Inl ValueError
      else Inr (map (\<lambda>i. df ! i) (take n (permutation (length df)))))"

definition sampled :: "(nat \<Rightarrow> nat list) \<Rightarrow> station list \<Rightarrow> error + station list" where
  "sampled permutation stations = sample permutation (min 5000 (length stations)) stations"

section \<open>Objects and the script\<close>

text \<open>
  A pandas \<^verbatim>\<open>DataFrame\<close> is an object: a variable holds a reference to it, two variables
  may hold the same reference, and an assignment to a column (\<^verbatim>\<open>df[col] = values\<close>) or to
  \<^verbatim>\<open>df.columns\<close> changes the object in place, for every variable that refers to it. The
  store maps references to frames; \<open>fresh\<close> is the next unused reference.

  A frame is the list of its rows, tagged with the columns it has: the four loaded tables,
  and the tables that the pages derive from them.
\<close>

type_synonym ref = nat

datatype frame =
    Stations "station list"
  | Models "model list"
  | Countries "country list"
  | World "world list"
  | Counts "(string \<times> nat) list"
  | FlagCounts "(bool \<times> nat) list"
  | Clustered "(country \<times> nat) list"
  | YearCounts "(int \<times> nat) list"
  | Years "int list"
  | YearForecast "(int \<times> rat) list"
  | Indexes "nat list"
  | IndexForecast "(nat \<times> rat) list"

record store =
  objs :: "ref \<Rightarrow> frame option"
  fresh :: ref

text \<open>
  A piece of the script runs on a store and ends with a value or with an exception, which
  ends the run of the page; the store is the one at the return or at the raise.
\<close>

type_synonym 'a script = "store \<Rightarrow> (error + 'a) \<times> store"

definition ret :: "'a \<Rightarrow> 'a script" where
  "ret x s = (Inr x, s)"

definition lift :: "error + 'a \<Rightarrow> 'a script" where
  "lift r s = (r, s)"

definition andthen :: "'a script \<Rightarrow> ('a \<Rightarrow> 'b script) \<Rightarrow> 'b script" where
  "andthen m f s = (case m s of (Inl e, s') \<Rightarrow> (Inl e, s') | (Inr x, s') \<Rightarrow> f x s')"

text \<open>
  Every pandas call of the script that returns a frame (\<^verbatim>\<open>groupby(...).size()\<close>,
  \<^verbatim>\<open>sort_values\<close>, \<^verbatim>\<open>head\<close>, \<^verbatim>\<open>sample\<close>, \<^verbatim>\<open>copy\<close>, a selection \<^verbatim>\<open>df[mask]\<close>,
  \<^verbatim>\<open>pd.DataFrame(...)\<close>) returns a new object: \<open>new\<close>. \<open>load\<close> reads the frame behind a
  reference, and \<open>modify\<close> changes it in place.
\<close>

definition alloc :: "frame \<Rightarrow> store \<Rightarrow> ref \<times> store" where
  "alloc f s = (fresh s, s\<lparr>objs := (objs s)(fresh s \<mapsto> f), fresh := Suc (fresh s)\<rparr>)"

definition new :: "frame \<Rightarrow> ref script" where
  "new f s = (case alloc f s of (r, s') \<Rightarrow> (Inr r, s'))"

definition load :: "ref \<Rightarrow> frame script" where
  "load r s = (case objs s r of None \<Rightarrow> (Inl KeyError, s) | Some f \<Rightarrow> (Inr f, s))"

definition modify :: "ref \<Rightarrow> (frame \<Rightarrow> error + frame) \<Rightarrow> unit script" where
  "modify r change s =
     (case objs s r of
        None \<Rightarrow> (Inl KeyError, s)
      | Some f \<Rightarrow>
          (case change f of
             Inl e \<Rightarrow> (Inl e, s)
           | Inr f' \<Rightarrow> (Inr (), s\<lparr>objs := (objs s)(r \<mapsto> f')\<rparr>)))"

definition copy :: "ref \<Rightarrow> ref script" where
  "copy r = andthen (load r) new"

text \<open>
  The columns that a page asks of a frame: a frame without them is refused. In the same
  way the changes below are defined on the frames that the script applies them to, and
  refuse any other frame. After the load none of these refusals occurs.
\<close>

fun stations_of :: "frame \<Rightarrow> error + station list" where
  "stations_of (Stations rows) = Inr rows"
| "stations_of _ = Inl KeyError"

fun models_of :: "frame \<Rightarrow> error + model list" where
  "models_of (Models rows) = Inr rows"
| "models_of _ = Inl KeyError"

fun countries_of :: "frame \<Rightarrow> error + country list" where
  "countries_of (Countries rows) = Inr rows"
| "countries_of _ = Inl KeyError"

fun world_of :: "frame \<Rightarrow> error + world list" where
  "world_of (World rows) = Inr rows"
| "world_of _ = Inl KeyError"

text \<open>\<^verbatim>\<open>df.head(n)\<close>, for any frame.\<close>

fun head_frame :: "nat \<Rightarrow> frame \<Rightarrow> frame" where
  "head_frame n (Stations rows) = Stations (take n rows)"
| "head_frame n (Models rows) = Models (take n rows)"
| "head_frame n (Countries rows) = Countries (take n rows)"
| "head_frame n (World rows) = World (take n rows)"
| "head_frame n (Counts rows) = Counts (take n rows)"
| "head_frame n (FlagCounts rows) = FlagCounts (take n rows)"
| "head_frame n (Clustered rows) = Clustered (take n rows)"
| "head_frame n (YearCounts rows) = YearCounts (take n rows)"
| "head_frame n (Years rows) = Years (take n rows)"
| "head_frame n (YearForecast rows) = YearForecast (take n rows)"
| "head_frame n (Indexes rows) = Indexes (take n rows)"
| "head_frame n (IndexForecast rows) = IndexForecast (take n rows)"

text \<open>The selection \<^verbatim>\<open>df[df[col] == v]\<close> on the models table.\<close>

fun select_models :: "(model \<Rightarrow> bool) \<Rightarrow> frame \<Rightarrow> error + frame" where
  "select_models P (Models rows) = Inr (Models (filter P rows))"
| "select_models P _ = Inl KeyError"

text \<open>
  Lines 136 and 137, on the table of charger counts: the assignment to \<^verbatim>\<open>columns\<close> renames
  the two columns, which are told apart by position here, and the \<^verbatim>\<open>map\<close> replaces the
  flags by their display names.
\<close>

fun rename_columns :: "frame \<Rightarrow> error + frame" where
  "rename_columns (FlagCounts rows) = Inr (FlagCounts rows)"
| "rename_columns _ = Inl ValueError"

fun charger_type_names :: "frame \<Rightarrow> error + frame" where
  "charger_type_names (FlagCounts rows) =
     Inr (Counts (map (\<lambda>(fast, n). (if fast then ''Fast DC'' else ''Slow AC'', n)) rows))"
| "charger_type_names _ = Inl KeyError"

text \<open>
  Lines 155, 182 and 201: the assignment of a new column, which pandas refuses with
  \<^verbatim>\<open>ValueError\<close> when the values are not as many as the rows.
\<close>

fun set_cluster :: "nat list \<Rightarrow> frame \<Rightarrow> error + frame" where
  "set_cluster labels (Countries rows) =
     (if length labels = length rows then Inr (Clustered (zip rows labels)) else Inl ValueError)"
| "set_cluster labels _ = Inl ValueError"

fun set_prediction :: "rat list \<Rightarrow> frame \<Rightarrow> error + frame" where
  "set_prediction prediction (Years rows) =
     (if length prediction = length rows then Inr (YearForecast (zip rows prediction))
      else Inl ValueError)"
| "set_prediction prediction (Indexes rows) =
     (if length prediction = length rows then Inr (IndexForecast (zip rows prediction))
      else Inl ValueError)"
| "set_prediction prediction _ = Inl ValueError"

text \<open>
  Line 135: \<^verbatim>\<open>stations["is_fast_dc"].value_counts().reset_index()\<close>: the number of rows
  for each value of the column, values in the order of their first row, then sorted by
  descending count.
\<close>

definition unique :: "'a list \<Rightarrow> 'a list" where
  "unique xs = rev (remdups (rev xs))"

definition value_counts :: "(nat list \<Rightarrow> nat list) \<Rightarrow> 'a list \<Rightarrow> ('a \<times> nat) list" where
  "value_counts argsort col =
     sort_values_desc argsort (map (\<lambda>k. (k, count_list col k)) (unique col))"

text \<open>
  The four global variables of the script, bound by \<^verbatim>\<open>load_data()\<close> (lines 9 to 16) to the
  four tables read from the CSV files.
\<close>

record globals =
  stations_ref :: ref
  models_ref :: ref
  country_summary_ref :: ref
  world_summary_ref :: ref

definition load_data ::
  "station list \<Rightarrow> model list \<Rightarrow> country list \<Rightarrow> world list \<Rightarrow> globals \<times> store" where
  "load_data st mo cs ws =
     (case alloc (Stations st) \<lparr>objs = (\<lambda>r. None), fresh = 0\<rparr> of (a, s1) \<Rightarrow>
      case alloc (Models mo) s1 of (b, s2) \<Rightarrow>
      case alloc (Countries cs) s2 of (c, s3) \<Rightarrow>
      case alloc (World ws) s3 of (d, s4) \<Rightarrow>
        (\<lparr>stations_ref = a, models_ref = b, country_summary_ref = c, world_summary_ref = d\<rparr>,
         s4))"

text \<open>
  What the libraries compute on their own, the parameters of the sections above: numpy's
  argsort and random permutation, scikit-learn's clustering and float64 regression, and
  the seed that the operating system would give an unseeded generator. A run of the
  script has a number, \<open>run\<close>.
\<close>

record libraries =
  np_argsort :: "nat list \<Rightarrow> nat list"
  np_permutation :: "nat \<Rightarrow> nat list"
  sk_lloyd :: "nat \<Rightarrow> nat \<Rightarrow> rat list \<Rightarrow> error + nat list"
  os_entropy :: "nat \<Rightarrow> nat"
  sk_float64_fit :: "rat list \<Rightarrow> rat list \<Rightarrow> linear_regression"
  sk_float64_value :: "linear_regression \<Rightarrow> rat \<Rightarrow> rat"

text \<open>
  The pages, one for each branch of the \<^verbatim>\<open>if\<close> on \<^verbatim>\<open>page\<close> (lines 39 to 212). The
  calls that lay out and draw (\<^verbatim>\<open>st.*\<close>, \<^verbatim>\<open>px.*\<close>) only read the frames they are given
  and are left out. All the tabs of a page run, in order.

  Overview (lines 39 to 57): the row counts are read, and \<^verbatim>\<open>world_summary.head()\<close> is shown.
\<close>

definition overview :: "globals \<Rightarrow> unit script" where
  "overview g =
     andthen (load (world_summary_ref g)) (\<lambda>world_summary.
     andthen (new (head_frame 5 world_summary)) (\<lambda>shown.
     ret ()))"

text \<open>Global Insights (lines 61 to 104).\<close>

definition global_insights :: "libraries \<Rightarrow> globals \<Rightarrow> unit script" where
  "global_insights lib g =
     andthen (load (stations_ref g)) (\<lambda>f.
     andthen (lift (stations_of f)) (\<lambda>stations.
     andthen (new (Counts (stations_count stations))) (\<lambda>stations_count_ref.
     andthen (new (Counts (top10 (np_argsort lib) (stations_count stations)))) (\<lambda>top10_ref.
     andthen (lift (sampled (np_permutation lib) stations)) (\<lambda>rows.
     andthen (new (Stations rows)) (\<lambda>sampled_ref.
     ret ()))))))"

text \<open>
  EV Models (lines 107 to 124). The options of the manufacturer select box are
  \<^verbatim>\<open>sorted(models["make"].unique().tolist())\<close>, which raises when makes are present and
  missing. The result is the reference that \<^verbatim>\<open>filtered\<close> holds at the end.
\<close>

definition ev_models :: "string \<Rightarrow> year_choice \<Rightarrow> globals \<Rightarrow> ref script" where
  "ev_models brand year g =
     andthen (load (models_ref g)) (\<lambda>f.
     andthen (lift (models_of f)) (\<lambda>models.
     andthen (if (\<exists>m\<in>set models. make_name m = None) \<and> (\<exists>m\<in>set models. make_name m \<noteq> None)
              then lift (Inl TypeError) else ret ()) (\<lambda>options.
     andthen (copy (models_ref g)) (\<lambda>filtered0.
     andthen (if brand \<noteq> ''All''
              then andthen (load filtered0) (\<lambda>f0.
                   andthen (lift (select_models (\<lambda>m. make_name m = Some brand) f0)) new)
              else ret filtered0) (\<lambda>filtered1.
     case year of
       AllYears \<Rightarrow> ret filtered1
     | Year y \<Rightarrow>
         andthen (load filtered1) (\<lambda>f1.
         andthen (lift (select_models (\<lambda>m. first_year m = y) f1)) new))))))"

text \<open>
  Charging Infrastructure (lines 127 to 166). The result is the reference that \<^verbatim>\<open>infra\<close>
  holds.
\<close>

definition charging_infrastructure :: "libraries \<Rightarrow> nat \<Rightarrow> globals \<Rightarrow> ref script" where
  "charging_infrastructure lib run g =
     andthen (load (stations_ref g)) (\<lambda>f.
     andthen (lift (stations_of f)) (\<lambda>stations.
     andthen (new (FlagCounts (value_counts (np_argsort lib)
                     (map is_fast_dc stations)))) (\<lambda>charger_counts.
     andthen (modify charger_counts rename_columns) (\<lambda>renamed.
     andthen (modify charger_counts charger_type_names) (\<lambda>mapped.
     andthen (copy (country_summary_ref g)) (\<lambda>infra.
     andthen (load infra) (\<lambda>fi.
     andthen (lift (countries_of fi)) (\<lambda>rows.
     andthen (lift (fit_predict (sk_lloyd lib) (os_entropy lib) run kmeans
                     (map (\<lambda>c. of_int (cs_stations c)) rows))) (\<lambda>labels.
     andthen (modify infra (set_cluster labels)) (\<lambda>assigned.
     ret infra))))))))))"

text \<open>
  EV Forecasts (lines 169 to 212). The result is the references that \<^verbatim>\<open>future_years\<close> and
  \<^verbatim>\<open>future_idx\<close> hold.
\<close>

definition ev_forecasts :: "libraries \<Rightarrow> globals \<Rightarrow> (ref \<times> ref) script" where
  "ev_forecasts lib g =
     andthen (load (models_ref g)) (\<lambda>f.
     andthen (lift (models_of f)) (\<lambda>models.
     andthen (new (YearCounts (growth models))) (\<lambda>growth_ref.
     andthen (lift (fit (sk_float64_fit lib)
                     (map (\<lambda>(yr, c). of_int yr) (growth models))
                     (map (\<lambda>(yr, c). of_nat c) (growth models)))) (\<lambda>model.
     andthen (new (Years [Min (set (map fst (growth models))) .. 2029])) (\<lambda>future_years.
     andthen (lift (predict (sk_float64_value lib) model
                     (map of_int [Min (set (map fst (growth models))) .. 2029]))) (\<lambda>prediction.
     andthen (modify future_years (set_prediction prediction)) (\<lambda>predicted.
     andthen (load (world_summary_ref g)) (\<lambda>fw.
     andthen (lift (world_of fw)) (\<lambda>world_summary.
     andthen (lift (fit (sk_float64_fit lib)
                     (map of_nat [0..<length world_summary])
                     (map (\<lambda>w. of_int (ws_count w)) world_summary))) (\<lambda>model2.
     andthen (new (Indexes [0..<length world_summary + 5])) (\<lambda>future_idx.
     andthen (lift (predict (sk_float64_value lib) model2
                     (map of_nat [0..<length world_summary + 5]))) (\<lambda>prediction2.
     andthen (modify future_idx (set_prediction prediction2)) (\<lambda>predicted2.
     ret (future_years, future_idx))))))))))))))"

text \<open>
  One run of the script after the load: the page chosen in the side bar, with the
  selections of the EV Models page.
\<close>

datatype page =
    Overview
  | Global_Insights
  | EV_Models string year_choice
  | Charging_Infrastructure
  | EV_Forecasts

definition discard :: "'a script \<Rightarrow> unit script" where
  "discard m = andthen m (\<lambda>x. ret ())"

definition app :: "libraries \<Rightarrow> nat \<Rightarrow> page \<Rightarrow> globals \<Rightarrow> unit script" where
  "app lib run page g =
     (case page of
        Overview \<Rightarrow> overview g
      | Global_Insights \<Rightarrow> global_insights lib g
      | EV_Models brand year \<Rightarrow> discard (ev_models brand year g)
      | Charging_Infrastructure \<Rightarrow> discard (charging_infrastructure lib run g)
      | EV_Forecasts \<Rightarrow> discard (ev_forecasts lib g))"

text \<open>The frames behind the four global variables.\<close>

definition source_tables :: "globals \<Rightarrow> store \<Rightarrow> frame option list" where
  "source_tables g s =
     [objs s (stations_ref g), objs s (models_ref g),
      objs s (country_summary_ref g), objs s (world_summary_ref g)]"

text \<open>
  A piece of script keeps the objects below a limit \<open>L\<close> when, run on a store whose unused
  references start at \<open>L\<close> or later, it leaves every object below \<open>L\<close> as it is and uses
  no reference below \<open>L\<close> as a new one; \<open>Q\<close> is what its value then satisfies.
\<close>

definition keeps :: "ref \<Rightarrow> ('a \<Rightarrow> bool) \<Rightarrow> 'a script \<Rightarrow> bool" where
  "keeps L Q m =
     (\<forall>s. L \<le> fresh s \<longrightarrow>
        (case m s of (r, s') \<Rightarrow>
           L \<le> fresh s' \<and> (\<forall>a<L. objs s' a = objs s a)
           \<and> (case r of Inl e \<Rightarrow> True | Inr x \<Rightarrow> Q x)))"

section \<open>Properties of the aggregation\<close>

lemma sum_count_list_remdups:
  "(\<Sum>k\<leftarrow>remdups xs. count_list xs k) = length xs"
proof -
  have "(\<Sum>k\<leftarrow>remdups xs. count_list xs k) = (\<Sum>k\<in>set xs. count_list xs k)"
    by (simp add: sum_list_distinct_conv_sum_set)
  then show ?thesis
    by (simp add: sum_count_set)
qed

lemma sum_list_sort_key:
  fixes f :: "'a::linorder \<Rightarrow> nat"
  shows "sum_list (map f (sort xs)) = sum_list (map f xs)"
proof -
  have "mset (map f (sort xs)) = mset (map f xs)"
    by simp
  then show ?thesis
    by (metis sum_mset_sum_list)
qed

lemma groupby_size_sum:
  "sum_list (map snd (groupby_size col)) = length [k. Some k \<leftarrow> col]"
  by (simp add: groupby_size_def Let_def comp_def sum_list_sort_key sum_count_list_remdups)

lemma groupby_size_keys:
  "map fst (groupby_size col) = sort (remdups [k. Some k \<leftarrow> col])"
  by (simp add: groupby_size_def Let_def comp_def)

lemma groupby_size_length:
  "length (groupby_size col) = card {k. Some k \<in> set col}"
proof -
  have "set [k. Some k \<leftarrow> col] = {k. Some k \<in> set col}"
    by (induction col) (auto split: option.splits)
  moreover have "length (groupby_size col) = card (set [k. Some k \<leftarrow> col])"
    by (simp add: groupby_size_def Let_def length_remdups_card_conv)
  ultimately show ?thesis
    by simp
qed

lemma present_all:
  "[k. Some k \<leftarrow> map Some ks] = ks"
  by (induction ks) simp_all

text \<open>
  C6 (as the code has it). The per-key counts sum to the number of rows whose key is
  present; for a column without missing keys, such as the integer column
  \<^verbatim>\<open>first_year\<close>, that is the number of rows of the table. A table with no rows gives
  the empty table of counts.
\<close>

theorem aggregator_counts_sum:
  "sum_list (map snd (stations_count stations)) = length [k. Some k \<leftarrow> map country_code stations]
   \<and> sum_list (map snd (groupby_size (map Some ks))) = length ks
   \<and> sum_list (map snd (growth models)) = length models
   \<and> stations_count [] = [] \<and> growth [] = []"
proof -
  have a: "sum_list (map snd (stations_count stations))
      = length [k. Some k \<leftarrow> map country_code stations]"
    by (simp only: stations_count_def groupby_size_sum)
  have b: "sum_list (map snd (groupby_size (map Some ks))) = length ks"
    by (simp only: groupby_size_sum present_all)
  have "map (\<lambda>m. Some (first_year m)) models = map Some (map first_year models)"
    by simp
  then have c: "sum_list (map snd (growth models)) = length models"
    by (simp only: growth_def groupby_size_sum present_all length_map)
  have d: "stations_count [] = []" "growth [] = []"
    by (simp_all add: stations_count_def growth_def groupby_size_def)
  from a b c d show ?thesis
    by blast
qed

text \<open>
  C6 (as the claim has it) fails where a key is missing: a stations table of one row
  whose country code is missing has one row, and its counts sum to 0.
\<close>

theorem aggregator_counts_sum_counterexample:
  "sum_list (map snd (stations_count
      [\<lparr>name = Some ''Windhoek Mall'', country_code = None,
        latitude = -22, longitude = 17, is_fast_dc = False\<rparr>]))
   \<noteq> length [\<lparr>name = Some ''Windhoek Mall'', country_code = None,
        latitude = -22, longitude = 17, is_fast_dc = False\<rparr>]"
  by (simp add: stations_count_def groupby_size_def)

section \<open>Properties of the filter\<close>

text \<open>
  C7. With both selections at \<^verbatim>\<open>"All"\<close> the filter returns the table as it is, and
  every filter result is the original table with rows left out: a subsequence, so the
  surviving rows keep their relative order.
\<close>

theorem filtered_all_and_order:
  "filtered models ''All'' AllYears = models
   \<and> subseq (filtered models brand year) models"
proof -
  have "subseq (filter P (filter Q models)) models" for P Q :: "model \<Rightarrow> bool"
    by (rule subseq_order.order_trans [OF subseq_filter_left subseq_filter_left])
  then show ?thesis
    by (cases year) (simp_all add: filtered_def Let_def)
qed

section \<open>Properties of the top ten\<close>

lemma argsort_of_pairs:
  assumes "mset zs = mset (zip xs [0..<length xs])"
  shows "mset (map snd (sort_key fst zs)) = mset [0..<length xs]"
    and "sorted (map (\<lambda>i. xs ! i) (map snd (sort_key fst zs)))"
proof -
  have e: "map snd (zip xs [0..<length xs]) = [0..<length xs]"
    by (rule map_snd_zip) simp
  have "mset (map snd (sort_key fst zs)) = image_mset snd (mset (sort_key fst zs))"
    by (simp only: mset_map)
  also have "\<dots> = image_mset snd (mset (zip xs [0..<length xs]))"
    using assms by (simp only: mset_sort)
  also have "\<dots> = mset (map snd (zip xs [0..<length xs]))"
    by (simp only: mset_map)
  finally show "mset (map snd (sort_key fst zs)) = mset [0..<length xs]"
    by (simp only: e)
  have "set zs = set (zip xs [0..<length xs])"
    using assms by (rule mset_eq_setD)
  then have "\<forall>z \<in> set (sort_key fst zs). xs ! snd z = fst z"
    by (auto simp: set_zip)
  then have "map (\<lambda>i. xs ! i) (map snd (sort_key fst zs)) = map fst (sort_key fst zs)"
    by simp
  moreover have "sorted (map fst (sort_key fst zs))"
    by (rule sorted_sort_key)
  ultimately show "sorted (map (\<lambda>i. xs ! i) (map snd (sort_key fst zs)))"
    by (simp only:)
qed

lemma is_argsort_stable: "is_argsort stable_argsort"
  unfolding is_argsort_def stable_argsort_def
  using argsort_of_pairs [OF refl] by blast

lemma is_argsort_reversing: "is_argsort reversing_argsort"
proof -
  have "mset (rev (zip xs [0..<length xs])) = mset (zip xs [0..<length xs])" for xs :: "nat list"
    by simp
  from argsort_of_pairs [OF this] show ?thesis
    unfolding is_argsort_def reversing_argsort_def by blast
qed

lemma rev_upt_nth: "j < n \<Longrightarrow> rev [0..<n] ! j = n - Suc j"
  by (simp add: rev_nth)

lemma map_mirror_upt: "map (\<lambda>j. n - Suc j) [0..<n] = rev [0..<n]"
  by (rule nth_equalityI) (simp_all add: rev_nth)

lemma sort_values_desc_indexer:
  assumes "is_argsort argsort"
  shows "sort_values_desc argsort df =
     rev (map (\<lambda>j. df ! (length df - Suc j)) (argsort (rev (map snd df))))"
    and "mset (argsort (rev (map snd df))) = mset [0..<length df]"
    and "sorted (map (\<lambda>j. rev (map snd df) ! j) (argsort (rev (map snd df))))"
proof -
  from assms show p: "mset (argsort (rev (map snd df))) = mset [0..<length df]"
    and "sorted (map (\<lambda>j. rev (map snd df) ! j) (argsort (rev (map snd df))))"
    unfolding is_argsort_def by simp_all
  from p have "set (argsort (rev (map snd df))) = set [0..<length df]"
    by (rule mset_eq_setD)
  then have "\<forall>j \<in> set (argsort (rev (map snd df))). j < length df"
    by simp
  then have "map (\<lambda>j. rev [0..<length df] ! j) (argsort (rev (map snd df)))
      = map (\<lambda>j. length df - Suc j) (argsort (rev (map snd df)))"
    by (simp add: rev_upt_nth)
  then show "sort_values_desc argsort df =
     rev (map (\<lambda>j. df ! (length df - Suc j)) (argsort (rev (map snd df))))"
    by (simp add: sort_values_desc_def Let_def rev_map comp_def)
qed

lemma mset_sort_values_desc:
  assumes "is_argsort argsort"
  shows "mset (sort_values_desc argsort df) = mset df"
proof -
  let ?p = "argsort (rev (map snd df))"
  have "mset (map (\<lambda>j. df ! (length df - Suc j)) ?p)
      = image_mset (\<lambda>j. df ! (length df - Suc j)) (mset [0..<length df])"
    using sort_values_desc_indexer(2) [OF assms, of df] by (metis mset_map)
  also have "\<dots> = mset (map (\<lambda>i. df ! i) (map (\<lambda>j. length df - Suc j) [0..<length df]))"
    by (simp add: comp_def)
  also have "\<dots> = mset (map (\<lambda>i. df ! i) [0..<length df])"
    by (simp only: map_mirror_upt rev_map [symmetric] mset_rev)
  finally show ?thesis
    by (simp add: sort_values_desc_indexer(1) [OF assms] map_nth)
qed

lemma sorted_sort_values_desc:
  assumes "is_argsort argsort"
  shows "sorted_wrt (\<lambda>a b. snd b \<le> snd a) (sort_values_desc argsort df)"
proof -
  let ?p = "argsort (rev (map snd df))"
  have "set ?p = set [0..<length df]"
    using sort_values_desc_indexer(2) [OF assms, of df] by (rule mset_eq_setD)
  then have "\<forall>j \<in> set ?p. j < length df"
    by simp
  then have "map (\<lambda>j. rev (map snd df) ! j) ?p = map (\<lambda>j. snd (df ! (length df - Suc j))) ?p"
    by (auto simp: rev_nth)
  with sort_values_desc_indexer(3) [OF assms, of df]
  have "sorted (map snd (map (\<lambda>j. df ! (length df - Suc j)) ?p))"
    by (simp add: comp_def)
  then have "sorted_wrt (\<lambda>a b. snd a \<le> snd b) (map (\<lambda>j. df ! (length df - Suc j)) ?p)"
    by (simp only: sorted_wrt_map sorted_map)
  then show ?thesis
    by (simp add: sort_values_desc_indexer(1) [OF assms] sorted_wrt_rev)
qed

lemma mset_take_subseteq:
  "mset (take n xs) \<subseteq># mset xs"
proof -
  have "mset xs = mset (take n xs) + mset (drop n xs)"
    by (metis append_take_drop_id mset_append)
  then show ?thesis
    by simp
qed

text \<open>
  C2 (as the code has it). For every stations table and every argsort that meets its
  contract, the top ten of the per-country counts has \<open>min 10 d\<close> rows, where \<open>d\<close> is the
  number of distinct country codes present in the table; its counts never increase from
  one row to the next; and its rows are rows of the table of counts.
\<close>

theorem top10_length_sorted:
  assumes "is_argsort argsort"
  shows "length (top10 argsort (stations_count stations))
           = min 10 (card {k. Some k \<in> set (map country_code stations)})
         \<and> sorted_wrt (\<lambda>a b. snd b \<le> snd a) (top10 argsort (stations_count stations))
         \<and> mset (top10 argsort (stations_count stations)) \<subseteq># mset (stations_count stations)"
proof -
  let ?counts = "stations_count stations"
  have "length (sort_values_desc argsort ?counts) = length ?counts"
    using mset_sort_values_desc [OF assms, of ?counts] by (rule mset_eq_length)
  then have "length (top10 argsort ?counts)
      = min 10 (card {k. Some k \<in> set (map country_code stations)})"
    by (simp add: top10_def stations_count_def groupby_size_length min.commute)
  moreover have "sorted_wrt (\<lambda>a b. snd b \<le> snd a) (top10 argsort ?counts)"
    unfolding top10_def by (rule sorted_wrt_take) (rule sorted_sort_values_desc [OF assms])
  moreover have "mset (top10 argsort ?counts) \<subseteq># mset ?counts"
    using mset_take_subseteq [of 10 "sort_values_desc argsort ?counts"]
    by (simp only: top10_def mset_sort_values_desc [OF assms])
  ultimately show ?thesis
    by blast
qed

theorem top10_length_sorted_witness:
  "is_argsort stable_argsort
   \<and> length (top10 stable_argsort (stations_count
        [\<lparr>name = None, country_code = Some ''US'', latitude = 0, longitude = 0, is_fast_dc = True\<rparr>,
         \<lparr>name = None, country_code = Some ''DE'', latitude = 0, longitude = 0, is_fast_dc = False\<rparr>,
         \<lparr>name = None, country_code = Some ''US'', latitude = 1, longitude = 1, is_fast_dc = False\<rparr>]))
      = 2
   \<and> top10 stable_argsort (stations_count
        [\<lparr>name = None, country_code = Some ''US'', latitude = 0, longitude = 0, is_fast_dc = True\<rparr>,
         \<lparr>name = None, country_code = Some ''DE'', latitude = 0, longitude = 0, is_fast_dc = False\<rparr>,
         \<lparr>name = None, country_code = Some ''US'', latitude = 1, longitude = 1, is_fast_dc = False\<rparr>])
      = [(''US'', 2), (''DE'', 1)]"
proof -
  let ?t = "[\<lparr>name = None, country_code = Some ''US'', latitude = 0, longitude = 0, is_fast_dc = True\<rparr>,
         \<lparr>name = None, country_code = Some ''DE'', latitude = 0, longitude = 0, is_fast_dc = False\<rparr>,
         \<lparr>name = None, country_code = Some ''US'', latitude = 1, longitude = (1::rat), is_fast_dc = False\<rparr>]"
  have "{k. Some k \<in> set (map country_code ?t)} = {''US'', ''DE''}"
    by auto
  then have "card {k. Some k \<in> set (map country_code ?t)} = 2"
    by simp
  with top10_length_sorted [OF is_argsort_stable, of ?t]
  have "length (top10 stable_argsort (stations_count ?t)) = 2"
    by simp
  moreover have "top10 stable_argsort (stations_count ?t) = [(''US'', 2), (''DE'', 1)]"
    by (simp add: top10_def sort_values_desc_def stable_argsort_def stations_count_def
        groupby_size_def)
  ultimately show ?thesis
    using is_argsort_stable by blast
qed

text \<open>
  C2 (as the claim has it) fails on the order of ties. In a table where \<^verbatim>\<open>US\<close> comes
  before \<^verbatim>\<open>DE\<close> and each has one station, a stable argsort gives \<^verbatim>\<open>DE\<close> first: the
  table of counts is in ascending key order, not in the order the keys were met. And
  the order of ties is not fixed by the code: the other argsort, which meets the same
  contract, gives the opposite order.
\<close>

theorem top10_ties_counterexample:
  "is_argsort stable_argsort \<and> is_argsort reversing_argsort
   \<and> top10 stable_argsort (stations_count
        [\<lparr>name = None, country_code = Some ''US'', latitude = 0, longitude = 0, is_fast_dc = False\<rparr>,
         \<lparr>name = None, country_code = Some ''DE'', latitude = 0, longitude = 0, is_fast_dc = False\<rparr>])
      = [(''DE'', 1), (''US'', 1)]
   \<and> top10 reversing_argsort (stations_count
        [\<lparr>name = None, country_code = Some ''US'', latitude = 0, longitude = 0, is_fast_dc = False\<rparr>,
         \<lparr>name = None, country_code = Some ''DE'', latitude = 0, longitude = 0, is_fast_dc = False\<rparr>])
      = [(''US'', 1), (''DE'', 1)]"
  by (simp add: is_argsort_stable is_argsort_reversing top10_def sort_values_desc_def
      stable_argsort_def reversing_argsort_def stations_count_def groupby_size_def)

section \<open>Properties of the forecasts\<close>

lemma least_squares_single:
  "least_squares [x] [v] = \<lparr>coef = 0, intercept = v\<rparr>"
  by (simp add: least_squares_def mean_def lstsq_def)

text \<open>
  The least-squares line of the series \<open>x = [2018, 2019, 2020]\<close>, \<open>y = [10, 20, 30]\<close> in
  exact arithmetic: slope 10 and intercept -20170, with the value 40 at 2021. This is
  the line that the float64 fit of the library approximates; what the rounded fit
  returns is not stated here.
\<close>

lemma least_squares_example:
  "least_squares [2018, 2019, 2020] [10, 20, 30] = \<lparr>coef = 10, intercept = - 20170\<rparr>"
  "linear_value \<lparr>coef = 10, intercept = - 20170\<rparr> 2021 = 40"
  by (simp_all add: least_squares_def mean_def lstsq_def linear_value_def)

lemma fit_single:
  "fit F [x] [v] = Inr \<lparr>coef = 0, intercept = v\<rparr>"
  by (simp add: fit_def least_squares_single)

lemma fit_Inr:
  assumes "X \<noteq> []" and "length y = length X"
  shows "\<exists>m. fit F X y = Inr m"
  using assms by (simp add: fit_def)

lemma predict_Inr:
  assumes "X \<noteq> []"
  shows "predict E m X = Inr (map (prediction_at E m) X)"
  using assms by (simp add: predict_def)

lemma growth_keys:
  "map fst (growth models) = sort (remdups (map first_year models))"
proof -
  have "map (\<lambda>m. Some (first_year m)) models = map Some (map first_year models)"
    by simp
  then show ?thesis
    by (simp only: growth_def groupby_size_keys present_all)
qed

lemma growth_Nil_iff:
  "growth models = [] \<longleftrightarrow> models = []"
proof -
  have "growth models = [] \<longleftrightarrow> map fst (growth models) = []"
    by simp
  also have "\<dots> \<longleftrightarrow> set (sort (remdups (map first_year models))) = {}"
    by (simp only: growth_keys set_empty)
  finally show ?thesis
    by simp
qed

lemma growth_Min:
  "Min (set (map fst (growth models))) = Min (first_year ` set models)"
proof -
  have "set (map fst (growth models)) = first_year ` set models"
    by (simp only: growth_keys) simp
  then show ?thesis
    by (simp only:)
qed

lemma zip_values:
  "zip xs (map (\<lambda>x. f (g x)) xs) = map (\<lambda>x. (x, f (g x))) xs"
  by (induction xs) simp_all

lemma model_forecast_range:
  assumes "models \<noteq> []" and "Min (first_year ` set models) < 2030"
  shows "\<exists>m. fit F (map (\<lambda>(yr, c). of_int yr) (growth models))
                  (map (\<lambda>(yr, c). of_nat c) (growth models)) = Inr m
           \<and> model_forecast F E models
             = Inr (map (\<lambda>yr. (yr, prediction_at E m (of_int yr)))
                      [Min (first_year ` set models) .. 2029])"
proof -
  let ?g = "growth models"
  let ?X = "map (\<lambda>(yr, c). of_int yr) ?g :: rat list"
  let ?y = "map (\<lambda>(yr, c). of_nat c) ?g :: rat list"
  let ?f = "[Min (first_year ` set models) .. 2029]"
  have "?X \<noteq> []" and "length ?y = length ?X"
    using assms(1) by (simp_all add: growth_Nil_iff)
  from fit_Inr [OF this] obtain m where m: "fit F ?X ?y = Inr m"
    by blast
  have "map rat_of_int ?f \<noteq> []"
    using assms(2) by simp
  then have "predict E m (map rat_of_int ?f) = Inr (map (prediction_at E m) (map rat_of_int ?f))"
    by (rule predict_Inr)
  then have "model_forecast F E models
      = Inr (zip ?f (map (\<lambda>yr. prediction_at E m (rat_of_int yr)) ?f))"
    using m by (simp add: model_forecast_def Let_def growth_Min comp_def del: set_map)
  then have "model_forecast F E models
      = Inr (map (\<lambda>yr. (yr, prediction_at E m (rat_of_int yr))) ?f)"
    by (simp only: zip_values)
  with m show ?thesis
    by blast
qed

lemma model_forecast_late:
  assumes "models \<noteq> []" and "2030 \<le> Min (first_year ` set models)"
  shows "model_forecast F E models = Inl ValueError"
proof -
  let ?g = "growth models"
  let ?X = "map (\<lambda>(yr, c). of_int yr) ?g :: rat list"
  let ?y = "map (\<lambda>(yr, c). of_nat c) ?g :: rat list"
  have "?X \<noteq> []" and "length ?y = length ?X"
    using assms(1) by (simp_all add: growth_Nil_iff)
  from fit_Inr [OF this] obtain m where m: "fit F ?X ?y = Inr m"
    by blast
  have "[Min (first_year ` set models) .. 2029] = []"
    using assms(2) by simp
  then show ?thesis
    using m by (simp add: model_forecast_def Let_def growth_Min predict_def del: set_map)
qed

lemma world_forecast_range:
  assumes "world_summary \<noteq> []"
  shows "\<exists>m. fit F (map of_nat [0..<length world_summary])
                  (map (\<lambda>w. of_int (ws_count w)) world_summary) = Inr m
           \<and> world_forecast F E world_summary
             = Inr (map (\<lambda>i. (i, prediction_at E m (of_nat i))) [0..<length world_summary + 5])"
proof -
  let ?n = "length world_summary"
  let ?X = "map of_nat [0..<?n] :: rat list"
  let ?y = "map (\<lambda>w. of_int (ws_count w)) world_summary :: rat list"
  let ?f = "[0..<?n + 5]"
  have "?X \<noteq> []" and "length ?y = length ?X"
    using assms by simp_all
  from fit_Inr [OF this] obtain m where m: "fit F ?X ?y = Inr m"
    by blast
  have "map rat_of_nat ?f \<noteq> []"
    by simp
  then have "predict E m (map rat_of_nat ?f) = Inr (map (prediction_at E m) (map rat_of_nat ?f))"
    by (rule predict_Inr)
  then have "world_forecast F E world_summary
      = Inr (zip ?f (map (\<lambda>i. prediction_at E m (rat_of_nat i)) ?f))"
    using m by (simp add: world_forecast_def Let_def comp_def)
  then have "world_forecast F E world_summary
      = Inr (map (\<lambda>i. (i, prediction_at E m (rat_of_nat i))) ?f)"
    by (simp only: zip_values)
  with m show ?thesis
    by blast
qed

lemma remdups_single:
  assumes "xs \<noteq> []" and "\<forall>x\<in>set xs. x = a"
  shows "remdups xs = [a]" and "count_list xs a = length xs"
proof -
  have s: "set xs = {a}"
    using assms by (cases xs) auto
  have "length (remdups xs) = card (set xs)"
    by (rule length_remdups_card_conv)
  then have "length (remdups xs) = 1"
    by (simp add: s)
  then obtain b where b: "remdups xs = [b]"
    by (cases "remdups xs") auto
  then have "set (remdups xs) = {b}"
    by simp
  then have "b = a"
    using s by simp
  then show "remdups xs = [a]"
    using b by simp
  show "count_list xs a = length xs"
    using assms(2) by (induction xs) auto
qed

lemma growth_single_year:
  assumes "models \<noteq> []" and "\<forall>m\<in>set models. first_year m = yr"
  shows "growth models = [(yr, length models)]"
proof -
  have "map (\<lambda>m. Some (first_year m)) models = map Some (map first_year models)"
    by simp
  moreover have ne: "map first_year models \<noteq> []"
    and eq: "\<forall>x\<in>set (map first_year models). x = yr"
    using assms by auto
  moreover note remdups_single [OF ne eq]
  ultimately show ?thesis
    by (simp add: growth_def groupby_size_def present_all del: map_map)
qed

lemma model_forecast_single_year:
  assumes "models \<noteq> []" and "\<forall>m\<in>set models. first_year m = yr" and "yr < 2030"
  shows "model_forecast F E models = Inr (map (\<lambda>x. (x, of_nat (length models))) [yr..2029])"
proof -
  have f: "[yr..2029] \<noteq> []"
    using assms(3) by simp
  have "zip [yr..2029] (map (\<lambda>x. of_nat (length models)) [yr..2029])
      = map (\<lambda>x. (x, of_nat (length models) :: rat)) [yr..2029]"
    by (induction "[yr..2029]") (simp_all add: zip_map2 zip_same_conv_map)
  then show ?thesis
    using f by (simp add: model_forecast_def growth_single_year [OF assms(1,2)] fit_single
        predict_def prediction_at_def comp_def)
qed

lemma world_forecast_single:
  "world_forecast F E [w] = Inr (map (\<lambda>i. (i, of_int (ws_count w))) [0..<6])"
  by (simp add: world_forecast_def fit_single predict_def prediction_at_def upt_rec)

lemma forecast_empty:
  "model_forecast F E [] = Inl ValueError" "world_forecast F E [] = Inl ValueError"
  by (simp_all add: model_forecast_def world_forecast_def growth_def groupby_size_def fit_def)

text \<open>
  C4 (as the code has it). When the models table has a row and its first launch year is
  before 2030, the model forecast returns, for each year from that first year to 2029 and
  in order, the prediction at that year of the model fitted to the counts per launch
  year, and nothing else. When the world summary has \<open>n\<close> rows, \<open>n\<close> at least 1, the
  world forecast returns, for each index from 0 to \<open>n + 4\<close> and in order, the prediction
  at that index of the model fitted to the counts over the row indices. On a table with
  no row, and on a models table whose first launch year is 2030 or later, the forecast
  raises \<^verbatim>\<open>ValueError\<close>.
\<close>

theorem forecast_ranges:
  "(models \<noteq> [] \<and> Min (first_year ` set models) < 2030 \<longrightarrow>
      (\<exists>m. fit F (map (\<lambda>(yr, c). of_int yr) (growth models))
                 (map (\<lambda>(yr, c). of_nat c) (growth models)) = Inr m
         \<and> model_forecast F E models
           = Inr (map (\<lambda>yr. (yr, prediction_at E m (of_int yr)))
                    [Min (first_year ` set models) .. 2029])))
   \<and> (models \<noteq> [] \<and> 2030 \<le> Min (first_year ` set models) \<longrightarrow>
        model_forecast F E models = Inl ValueError)
   \<and> model_forecast F E [] = Inl ValueError
   \<and> (world_summary \<noteq> [] \<longrightarrow>
      (\<exists>m. fit F (map of_nat [0..<length world_summary])
                 (map (\<lambda>w. of_int (ws_count w)) world_summary) = Inr m
         \<and> world_forecast F E world_summary
           = Inr (map (\<lambda>i. (i, prediction_at E m (of_nat i)))
                    [0..<length world_summary + 5])))
   \<and> world_forecast F E [] = Inl ValueError"
  using model_forecast_range [of models F E] model_forecast_late [of models F E]
    world_forecast_range [of world_summary F E] forecast_empty [of F E]
  by blast

theorem forecast_ranges_witness:
  "model_forecast least_squares linear_value
       [\<lparr>make_name = Some ''Tesla'', first_year = 2027\<rparr>,
        \<lparr>make_name = Some ''Kia'', first_year = 2028\<rparr>,
        \<lparr>make_name = Some ''Tesla'', first_year = 2028\<rparr>]
     = Inr [(2027, 1), (2028, 2), (2029, 3)]
   \<and> world_forecast least_squares linear_value [\<lparr>ws_count = 5\<rparr>, \<lparr>ws_count = 9\<rparr>]
     = Inr [(0, 5), (1, 9), (2, 13), (3, 17), (4, 21), (5, 25), (6, 29)]"
proof -
  let ?models = "[\<lparr>make_name = Some ''Tesla'', first_year = 2027\<rparr>,
        \<lparr>make_name = Some ''Kia'', first_year = 2028\<rparr>,
        \<lparr>make_name = Some ''Tesla'', first_year = 2028\<rparr>]"
  let ?world = "[\<lparr>ws_count = 5\<rparr>, \<lparr>ws_count = 9\<rparr>]"
  have a: "?models \<noteq> [] \<and> Min (first_year ` set ?models) < 2030"
    by simp
  have b: "?world \<noteq> []"
    by simp
  have g: "growth ?models = [(2027, 1), (2028, 2)]"
    by (simp add: growth_def groupby_size_def)
  have c: "[Min (first_year ` set ?models) .. 2029] = [2027, 2028, 2029]"
    by (simp add: upto.simps)
  have d: "[0..<length ?world + 5] = [0, 1, 2, 3, 4, 5, 6]"
    by (simp add: upt_rec)
  from forecast_ranges [of ?models least_squares linear_value ?world] a
  obtain m where "fit least_squares (map (\<lambda>(yr, c). of_int yr) (growth ?models))
                 (map (\<lambda>(yr, c). of_nat c) (growth ?models)) = Inr m"
    and m: "model_forecast least_squares linear_value ?models
           = Inr (map (\<lambda>yr. (yr, prediction_at linear_value m (of_int yr)))
                    [Min (first_year ` set ?models) .. 2029])"
    by blast
  then have "m = \<lparr>coef = 1, intercept = - 2026\<rparr>"
    by (simp add: g fit_def least_squares_def mean_def lstsq_def)
  with m have 1: "model_forecast least_squares linear_value ?models
      = Inr [(2027, 1), (2028, 2), (2029, 3)]"
    by (simp only: c) (simp add: prediction_at_def linear_value_def)
  from forecast_ranges [of ?models least_squares linear_value ?world] b
  obtain m2 where "fit least_squares (map of_nat [0..<length ?world])
                 (map (\<lambda>w. of_int (ws_count w)) ?world) = Inr m2"
    and m2: "world_forecast least_squares linear_value ?world
           = Inr (map (\<lambda>i. (i, prediction_at linear_value m2 (of_nat i)))
                    [0..<length ?world + 5])"
    by blast
  then have "m2 = \<lparr>coef = 4, intercept = 5\<rparr>"
    by (simp add: fit_def least_squares_def mean_def lstsq_def upt_rec)
  with m2 have "world_forecast least_squares linear_value ?world
      = Inr [(0, 5), (1, 9), (2, 13), (3, 17), (4, 21), (5, 25), (6, 29)]"
    by (simp only: d) (simp add: prediction_at_def linear_value_def)
  with 1 show ?thesis
    by blast
qed

text \<open>
  C4 (as the claim has it) fails where the range is empty or the table is: a models
  table whose only launch year is 2030, one whose launch years are 2031 and 2035, and a
  world summary with no row get no forecast, the run ends in \<^verbatim>\<open>ValueError\<close>.
\<close>

theorem forecast_ranges_counterexample:
  "model_forecast least_squares linear_value
       [\<lparr>make_name = Some ''Tesla'', first_year = 2030\<rparr>] = Inl ValueError
   \<and> model_forecast least_squares linear_value
       [\<lparr>make_name = Some ''Tesla'', first_year = 2031\<rparr>,
        \<lparr>make_name = Some ''Kia'', first_year = 2035\<rparr>] = Inl ValueError
   \<and> world_forecast least_squares linear_value [] = Inl ValueError"
  by (simp add: model_forecast_def world_forecast_def growth_def groupby_size_def fit_def
      predict_def least_squares_def)

text \<open>
  C1 (as the code has it). A forecast series with no point makes the fit raise
  \<^verbatim>\<open>ValueError\<close>: neither forecast has a check of its own. A series with one point gives
  a flat forecast at the observed value: when all models have the same launch year,
  before 2030, every predicted year gets the number of models; when the world summary has
  one row, each of the six predicted indices gets its count.
\<close>

theorem forecast_degenerate:
  "model_forecast F E [] = Inl ValueError
   \<and> world_forecast F E [] = Inl ValueError
   \<and> (models \<noteq> [] \<and> (\<forall>m\<in>set models. first_year m = yr) \<and> yr < 2030 \<longrightarrow>
        model_forecast F E models = Inr (map (\<lambda>x. (x, of_nat (length models))) [yr..2029]))
   \<and> world_forecast F E [w] = Inr (map (\<lambda>i. (i, of_int (ws_count w))) [0..<6])"
  using forecast_empty [of F E] model_forecast_single_year [of models yr F E]
    world_forecast_single [of F E w]
  by blast

theorem forecast_degenerate_witness:
  "model_forecast least_squares linear_value
       [\<lparr>make_name = Some ''Tesla'', first_year = 2028\<rparr>,
        \<lparr>make_name = None, first_year = 2028\<rparr>]
     = Inr [(2028, 2), (2029, 2)]
   \<and> world_forecast least_squares linear_value [\<lparr>ws_count = 7\<rparr>]
     = Inr [(0, 7), (1, 7), (2, 7), (3, 7), (4, 7), (5, 7)]"
proof -
  let ?models = "[\<lparr>make_name = Some ''Tesla'', first_year = 2028\<rparr>,
                   \<lparr>make_name = None, first_year = 2028\<rparr>]"
  have a: "?models \<noteq> [] \<and> (\<forall>m\<in>set ?models. first_year m = 2028) \<and> (2028::int) < 2030"
    by simp
  have b: "map (\<lambda>x. (x, of_nat (length ?models) :: rat)) [2028..2029] = [(2028, 2), (2029, 2)]"
    by (simp add: upto.simps)
  have c: "map (\<lambda>i. (i, of_int (ws_count \<lparr>ws_count = 7\<rparr>) :: rat)) [0..<6]
      = [(0, 7), (1, 7), (2, 7), (3, 7), (4, 7), (5, 7)]"
    by (simp add: upt_rec)
  from forecast_degenerate [of least_squares linear_value ?models 2028 "\<lparr>ws_count = 7\<rparr>"] a
  have "model_forecast least_squares linear_value ?models
      = Inr (map (\<lambda>x. (x, of_nat (length ?models))) [2028..2029])"
    and "world_forecast least_squares linear_value [\<lparr>ws_count = 7\<rparr>]
      = Inr (map (\<lambda>i. (i, of_int (ws_count \<lparr>ws_count = 7\<rparr>))) [0..<6])"
    by blast+
  then show ?thesis
    by (simp only: b c simp_thms)
qed

text \<open>
  C1 (as the claim has it) fails on the series with no point: the forecasts of an empty
  models table and of an empty world summary end in the exception of the library's fit,
  with no report of their own and no prediction.
\<close>

theorem forecast_degenerate_counterexample:
  "model_forecast least_squares linear_value [] = Inl ValueError
   \<and> world_forecast least_squares linear_value [] = Inl ValueError"
  by (simp add: model_forecast_def world_forecast_def growth_def groupby_size_def fit_def)

section \<open>Properties of the clustering\<close>






text \<open>
  The seed matters: without it (\<^verbatim>\<open>random_state=None\<close>) two runs may label the same
  column differently.
\<close>

lemma unseeded_runs_differ:
  "fit_predict residue_labels (\<lambda>run. run) 0 (kmeans\<lparr>random_state := None\<rparr>) [5, 90, 20]
     \<noteq> fit_predict residue_labels (\<lambda>run. run) 1 (kmeans\<lparr>random_state := None\<rparr>) [5, 90, 20]"
  by (simp add: fit_predict_def kmeans_def residue_labels_def)







section \<open>Properties of the sample\<close>

lemma sample_ok:
  assumes "is_permutation permutation" and "n \<le> length df"
  shows "\<exists>rows. sample permutation n df = Inr rows \<and> length rows = n \<and> mset rows \<subseteq># mset df"
proof -
  let ?p = "permutation (length df)"
  have p: "mset ?p = mset [0..<length df]"
    using assms(1) by (simp add: is_permutation_def)
  then have "length ?p = length df"
    using mset_eq_length by fastforce
  then have l: "length (map (\<lambda>i. df ! i) (take n ?p)) = n"
    using assms(2) by simp
  have "mset (map (\<lambda>i. df ! i) ?p) = image_mset (\<lambda>i. df ! i) (mset [0..<length df])"
    by (simp only: mset_map p)
  also have "\<dots> = mset (map (\<lambda>i. df ! i) [0..<length df])"
    by (simp only: mset_map)
  finally have "mset (map (\<lambda>i. df ! i) ?p) = mset df"
    by (simp only: map_nth)
  moreover have "mset (take n (map (\<lambda>i. df ! i) ?p)) \<subseteq># mset (map (\<lambda>i. df ! i) ?p)"
    by (rule mset_take_subseteq)
  ultimately have "mset (map (\<lambda>i. df ! i) (take n ?p)) \<subseteq># mset df"
    by (simp add: take_map)
  with l show ?thesis
    using assms(2) by (simp add: sample_def)
qed

lemma is_permutation_rev: "is_permutation (\<lambda>n. rev [0..<n])"
  by (simp add: is_permutation_def)

text \<open>
  C10. For every permutation that the generator may return, the sample of the stations
  table succeeds, has \<open>min 5000 n\<close> rows for a table of \<open>n\<close> rows, and its rows are rows
  of the table, each taken at most as often as the table has it. A sample of more rows
  than the table has is refused: the cap is what makes the call succeed.
\<close>

theorem sampled_size:
  assumes "is_permutation permutation"
  shows "(\<exists>rows. sampled permutation stations = Inr rows
            \<and> length rows = min 5000 (length stations)
            \<and> mset rows \<subseteq># mset stations)
         \<and> (length stations < n \<longrightarrow> sample permutation n stations = Inl ValueError)"
proof -
  have "min 5000 (length stations) \<le> length stations"
    by simp
  from sample_ok [OF assms this] show ?thesis
    by (simp add: sampled_def sample_def)
qed

theorem sampled_size_witness:
  "is_permutation (\<lambda>n. rev [0..<n])
   \<and> sampled (\<lambda>n. rev [0..<n]) [\<lparr>name = None, country_code = Some ''US'', latitude = 0, longitude = 0, is_fast_dc = False\<rparr>,
      \<lparr>name = None, country_code = Some ''DE'', latitude = 0, longitude = 0, is_fast_dc = False\<rparr>] = Inr [\<lparr>name = None, country_code = Some ''DE'', latitude = 0, longitude = 0, is_fast_dc = False\<rparr>,
      \<lparr>name = None, country_code = Some ''US'', latitude = 0, longitude = 0, is_fast_dc = False\<rparr>]
   \<and> sample (\<lambda>n. rev [0..<n]) 5000 [\<lparr>name = None, country_code = Some ''US'', latitude = 0, longitude = 0, is_fast_dc = False\<rparr>,
      \<lparr>name = None, country_code = Some ''DE'', latitude = 0, longitude = 0, is_fast_dc = False\<rparr>] = Inl ValueError"
proof -
  have "sample (\<lambda>n. rev [0..<n]) 5000 [\<lparr>name = None, country_code = Some ''US'', latitude = 0, longitude = 0, is_fast_dc = False\<rparr>,
     \<lparr>name = None, country_code = Some ''DE'', latitude = 0, longitude = 0, is_fast_dc = False\<rparr>] = Inl ValueError"
    using sampled_size [OF is_permutation_rev, of "[\<lparr>name = None, country_code = Some ''US'', latitude = 0, longitude = 0, is_fast_dc = False\<rparr>,
       \<lparr>name = None, country_code = Some ''DE'', latitude = 0, longitude = 0, is_fast_dc = False\<rparr>]" 5000] by simp
  moreover have "sampled (\<lambda>n. rev [0..<n]) [\<lparr>name = None, country_code = Some ''US'', latitude = 0, longitude = 0, is_fast_dc = False\<rparr>,
     \<lparr>name = None, country_code = Some ''DE'', latitude = 0, longitude = 0, is_fast_dc = False\<rparr>] = Inr [\<lparr>name = None, country_code = Some ''DE'', latitude = 0, longitude = 0, is_fast_dc = False\<rparr>,
     \<lparr>name = None, country_code = Some ''US'', latitude = 0, longitude = 0, is_fast_dc = False\<rparr>]"
    by (simp add: sampled_def sample_def upt_rec)
  ultimately show ?thesis
    using is_permutation_rev by blast
qed

section \<open>Properties of the script\<close>

lemma load_data_eq:
  "load_data st mo cs ws =
     (\<lparr>stations_ref = 0, models_ref = 1, country_summary_ref = 2, world_summary_ref = 3\<rparr>,
      \<lparr>objs = (\<lambda>r. None)(0 \<mapsto> Stations st, 1 \<mapsto> Models mo, 2 \<mapsto> Countries cs, 3 \<mapsto> World ws),
       fresh = 4\<rparr>)"
  by (simp add: load_data_def alloc_def numeral_eq_Suc)

lemma keeps_weaken: "keeps L Q m \<Longrightarrow> (\<And>x. Q x \<Longrightarrow> R x) \<Longrightarrow> keeps L R m"
  unfolding keeps_def by (fastforce split: prod.splits sum.splits)

lemma keeps_ret: "Q x \<Longrightarrow> keeps L Q (ret x)"
  by (simp add: keeps_def ret_def)

lemma keeps_lift: "keeps L (\<lambda>x. True) (lift r)"
  by (simp add: keeps_def lift_def split: sum.splits)

lemma keeps_load: "keeps L (\<lambda>x. True) (load r)"
  by (simp add: keeps_def load_def split: option.splits)

lemma keeps_new: "keeps L (\<lambda>r. L \<le> r) (new f)"
  by (simp add: keeps_def new_def alloc_def)

lemma keeps_modify: "L \<le> r \<Longrightarrow> keeps L (\<lambda>x. True) (modify r change)"
  by (simp add: keeps_def modify_def split: option.splits sum.splits)

lemma keeps_andthen:
  assumes "keeps L Q m" and "\<And>x. Q x \<Longrightarrow> keeps L R (f x)"
  shows "keeps L R (andthen m f)"
  unfolding keeps_def
proof (intro allI impI)
  fix s :: store
  assume L: "L \<le> fresh s"
  obtain r s' where m: "m s = (r, s')"
    by (cases "m s")
  from assms(1) L m have 1: "L \<le> fresh s'" "\<forall>a<L. objs s' a = objs s a"
    and q: "case r of Inl e \<Rightarrow> True | Inr x \<Rightarrow> Q x"
    by (auto simp: keeps_def)
  show "case andthen m f s of (r, s'') \<Rightarrow>
           L \<le> fresh s'' \<and> (\<forall>a<L. objs s'' a = objs s a)
           \<and> (case r of Inl e \<Rightarrow> True | Inr x \<Rightarrow> R x)"
  proof (cases r)
    case (Inl e)
    with m 1 show ?thesis
      by (simp add: andthen_def)
  next
    case (Inr x)
    with q have "Q x"
      by simp
    from assms(2) [OF this] 1(1) have "case f x s' of (r, s'') \<Rightarrow>
           L \<le> fresh s'' \<and> (\<forall>a<L. objs s'' a = objs s' a)
           \<and> (case r of Inl e \<Rightarrow> True | Inr x \<Rightarrow> R x)"
      by (simp add: keeps_def)
    with m Inr 1(2) show ?thesis
      by (auto simp: andthen_def split: prod.splits)
  qed
qed

lemma keeps_copy: "keeps L (\<lambda>r. L \<le> r) (copy r)"
  unfolding copy_def by (rule keeps_andthen [OF keeps_load]) (rule keeps_new)

lemma keeps_overview: "keeps L (\<lambda>x. True) (overview g)"
  unfolding overview_def
  by (intro keeps_andthen [OF keeps_load] keeps_andthen [OF keeps_new] keeps_ret TrueI)

lemma keeps_global_insights: "keeps L (\<lambda>x. True) (global_insights lib g)"
  unfolding global_insights_def
  by (intro keeps_andthen [OF keeps_load] keeps_andthen [OF keeps_lift]
      keeps_andthen [OF keeps_new] keeps_ret TrueI)

lemma keeps_ev_models: "keeps L (\<lambda>r. L \<le> r) (ev_models brand year g)"
  unfolding ev_models_def
  apply (intro keeps_andthen [OF keeps_load] keeps_andthen [OF keeps_lift])
  apply (rule keeps_andthen [where Q = "\<lambda>x. True"])
   apply (simp add: keeps_lift keeps_ret)
  apply (rule keeps_andthen [OF keeps_copy])
  apply (rule keeps_andthen [where Q = "\<lambda>r. L \<le> r"])
   apply (auto intro!: keeps_ret keeps_andthen [OF keeps_load] keeps_andthen [OF keeps_lift] keeps_new
      split: year_choice.splits)
  done

lemma keeps_charging_infrastructure:
  "keeps L (\<lambda>r. L \<le> r) (charging_infrastructure lib run g)"
  unfolding charging_infrastructure_def
  apply (intro keeps_andthen [OF keeps_load] keeps_andthen [OF keeps_lift])
  apply (rule keeps_andthen [OF keeps_new])
  apply (rule keeps_andthen [OF keeps_modify], assumption)
  apply (rule keeps_andthen [OF keeps_modify], assumption)
  apply (rule keeps_andthen [OF keeps_copy])
  apply (intro keeps_andthen [OF keeps_load] keeps_andthen [OF keeps_lift])
  apply (rule keeps_andthen [OF keeps_modify], assumption)
  apply (rule keeps_ret, assumption)
  done

lemma keeps_ev_forecasts: "keeps L (\<lambda>x. True) (ev_forecasts lib g)"
  unfolding ev_forecasts_def
  apply (intro keeps_andthen [OF keeps_load] keeps_andthen [OF keeps_lift])
  apply (rule keeps_andthen [OF keeps_new])
  apply (rule keeps_andthen [OF keeps_lift])
  apply (rule keeps_andthen [OF keeps_new])
  apply (rule keeps_andthen [OF keeps_lift])
  apply (rule keeps_andthen [OF keeps_modify], assumption)
  apply (intro keeps_andthen [OF keeps_load] keeps_andthen [OF keeps_lift])
  apply (rule keeps_andthen [OF keeps_new])
  apply (rule keeps_andthen [OF keeps_lift])
  apply (rule keeps_andthen [OF keeps_modify], assumption)
  apply (rule keeps_ret, simp)
  done

lemma keeps_discard: "keeps L Q m \<Longrightarrow> keeps L (\<lambda>x. True) (discard m)"
  unfolding discard_def by (erule keeps_andthen) (simp add: keeps_ret)

lemma keeps_app: "keeps L (\<lambda>x. True) (app lib run page g)"
  unfolding app_def
  by (cases page)
    (simp_all add: keeps_overview keeps_global_insights keeps_discard [OF keeps_ev_models]
      keeps_discard [OF keeps_charging_infrastructure] keeps_discard [OF keeps_ev_forecasts])

lemma app_frame:
  assumes "stations_ref g < fresh s" "models_ref g < fresh s"
    "country_summary_ref g < fresh s" "world_summary_ref g < fresh s"
  shows "source_tables g (snd (app lib run page g s)) = source_tables g s"
proof -
  obtain r s' where a: "app lib run page g s = (r, s')"
    by (cases "app lib run page g s")
  from keeps_app [of "fresh s" lib run page g] a
  have "\<forall>a<fresh s. objs s' a = objs s a"
    by (auto simp: keeps_def)
  with assms a show ?thesis
    by (simp add: source_tables_def)
qed

lemma modify_in_place:
  assumes "objs s r = Some f" and "change f = Inr f'"
  shows "objs (snd (modify r change s)) r = Some f'"
  using assms by (simp add: modify_def)

lemma sources_loaded:
  "source_tables (fst (load_data st mo cs ws)) (snd (load_data st mo cs ws))
     = [Some (Stations st), Some (Models mo), Some (Countries cs), Some (World ws)]"
  by (simp add: load_data_eq source_tables_def)

text \<open>
  C9. After the load, a run of any page, with any selection, any behaviour of the
  libraries, and whether it ends normally or with an exception, leaves the frames behind \<^verbatim>\<open>stations\<close>, \<^verbatim>\<open>models\<close>, \<^verbatim>\<open>country_summary\<close> and
  \<^verbatim>\<open>world_summary\<close> as the load made them: every change in place is on an object that the
  page created itself.
\<close>

theorem sources_unchanged:
  "source_tables (fst (load_data st mo cs ws))
     (snd (app lib run page
            (fst (load_data st mo cs ws)) (snd (load_data st mo cs ws))))
   = [Some (Stations st), Some (Models mo), Some (Countries cs), Some (World ws)]"
proof -
  have "source_tables (fst (load_data st mo cs ws))
     (snd (app lib run page
            (fst (load_data st mo cs ws)) (snd (load_data st mo cs ws))))
    = source_tables (fst (load_data st mo cs ws)) (snd (load_data st mo cs ws))"
    by (rule app_frame) (simp_all add: load_data_eq)
  then show ?thesis
    by (simp only: sources_loaded)
qed

text \<open>
  The copy matters: the assignment of the cluster column through the reference of
  \<^verbatim>\<open>country_summary\<close> itself would change the loaded table.
\<close>

lemma assign_through_alias:
  assumes "length labels = length cs"
  shows "source_tables (fst (load_data st mo cs ws))
           (snd (modify (country_summary_ref (fst (load_data st mo cs ws))) (set_cluster labels)
                  (snd (load_data st mo cs ws))))
         \<noteq> source_tables (fst (load_data st mo cs ws)) (snd (load_data st mo cs ws))"
  using assms by (simp add: load_data_eq source_tables_def modify_def)

text \<open>
  The objects that the pages end with hold what the functions of the earlier sections
  compute.
\<close>

lemma ev_models_filtered:
  assumes "\<not> ((\<exists>m\<in>set mo. make_name m = None) \<and> (\<exists>m\<in>set mo. make_name m \<noteq> None))"
  shows "\<exists>r s'. ev_models brand year (fst (load_data st mo cs ws)) (snd (load_data st mo cs ws))
            = (Inr r, s')
          \<and> objs s' r = Some (Models (filtered mo brand year))"
  using assms
  by (cases year)
    (auto simp: load_data_eq ev_models_def andthen_def load_def lift_def ret_def copy_def new_def
      alloc_def filtered_def)

lemma charging_infrastructure_clustering:
  "case clustering (sk_lloyd lib) (os_entropy lib) run cs of
     Inl e \<Rightarrow> fst (charging_infrastructure lib run
                  (fst (load_data st mo cs ws)) (snd (load_data st mo cs ws))) = Inl e
   | Inr rows \<Rightarrow>
       (\<exists>r s'. charging_infrastructure lib run
                  (fst (load_data st mo cs ws)) (snd (load_data st mo cs ws)) = (Inr r, s')
          \<and> objs s' r = Some (Clustered rows))"
  by (auto simp: load_data_eq charging_infrastructure_def andthen_def load_def lift_def ret_def
      copy_def new_def alloc_def modify_def clustering_def
      split: sum.splits if_splits)

lemma ev_forecasts_forecast:
  "case model_forecast (sk_float64_fit lib) (sk_float64_value lib) mo of
     Inl e \<Rightarrow> fst (ev_forecasts lib (fst (load_data st mo cs ws)) (snd (load_data st mo cs ws)))
               = Inl e
   | Inr pts \<Rightarrow>
       (case world_forecast (sk_float64_fit lib) (sk_float64_value lib) ws of
          Inl e \<Rightarrow> fst (ev_forecasts lib (fst (load_data st mo cs ws))
                         (snd (load_data st mo cs ws))) = Inl e
        | Inr pts2 \<Rightarrow>
            (\<exists>r r2 s'. ev_forecasts lib (fst (load_data st mo cs ws)) (snd (load_data st mo cs ws))
                         = (Inr (r, r2), s')
               \<and> objs s' r = Some (YearForecast pts)
               \<and> objs s' r2 = Some (IndexForecast pts2)))"
  by (auto simp: load_data_eq ev_forecasts_def andthen_def load_def lift_def ret_def
      new_def alloc_def modify_def model_forecast_def world_forecast_def predict_def Let_def
      split: sum.splits if_splits)

end
